theory Spec2Isabelle
  imports Main "HOL-Library.Word"
begin

section \<open>The country filter of caddy-maxmind-geolocation (main.go)\<close>

text \<open>
  The request matcher \<open>MaxmindGeolocation\<close> of \<^verbatim>\<open>main.go\<close> decides from the
  remote address of a request whether the request may pass: the address is split into
  host and port, the host is parsed as an IP address, the address is looked up in an
  ip2location dataset, and the country found is checked against two configured lists.

  The embedding is shallow. Go strings are byte strings and become \<open>string\<close>; the
  slices of the configuration become lists (a nil slice and an empty one have the same
  length and the same iteration, so both are \<open>[]\<close>); the two pointers of the struct
  become options, \<open>None\<close> for nil. Everything a call does beyond returning its value is
  written out: the receiver \<open>*m\<close> as it stands after the call, and the calls made on the
  logger and on the dataset, in order.
\<close>

subsection \<open>Data\<close>

text \<open>
  Values of Go's \<open>error\<close> interface that reach \<open>Match\<close>: the \<open>*net.AddrError\<close> of
  \<open>net.SplitHostPort\<close> (fields \<open>Err\<close> and \<open>Addr\<close>, in this order), and whatever error
  the dataset library reports.
\<close>

datatype error = AddrError string string | DbError string

text \<open>\<open>net.IP\<close> is a byte slice.\<close>

type_synonym IP = "8 word list"

text \<open>
  \<open>ip2location.IP2Locationrecord\<close>: of its fields \<open>Match\<close> reads \<open>Country_short\<close> only.
\<close>

record IP2Locationrecord =
  Country_short :: string

text \<open>
  The opened dataset \<open>*ip2location.DB\<close> is external to the repository. It is
  represented by what a query for the short country name answers on it: an error, or a
  record.
\<close>

type_synonym DB = "string \<Rightarrow> error + IP2Locationrecord"

definition Get_country_short :: "DB \<Rightarrow> string \<Rightarrow> error + IP2Locationrecord" where
  "Get_country_short d ipaddress = d ipaddress"

text \<open>
  A \<open>*zap.Logger\<close>, as \<open>NewLogger\<close> builds it: known by its output path.
\<close>

datatype Logger = ZapLogger string

text \<open>The struct of lines 34 to 58.\<close>

record MaxmindGeolocation =
  DbPath :: string
  LogPath :: string
  AllowCountries :: "string list"
  DenyCountries :: "string list"
  dbInst :: "DB option"
  logger :: "Logger option"

text \<open>
  Of \<open>*http.Request\<close> the matcher reads the field \<open>RemoteAddr\<close>. The server hands
  \<open>Match\<close> a request that exists, so the pointer itself is not modelled.
\<close>

record Request =
  RemoteAddr :: string

subsection \<open>Effects\<close>

text \<open>
  The fields passed to a log call (\<open>zap.String key value\<close>, \<open>zap.Error err\<close>), and the
  calls a run makes on its collaborators: \<open>Warn\<close> and \<open>Debug\<close> on a logger with the
  message and the fields, and \<open>Lookup\<close> for a call of \<open>Get_country_short\<close> on the
  dataset with the address text.
\<close>

datatype Field = zap_String string string | zap_Error error

datatype Event =
    Warn Logger string "Field list"
  | Debug Logger string "Field list"
  | Lookup string

text \<open>
  A method with the receiver \<open>m *MaxmindGeolocation\<close> yields its return value
  (\<open>ret\<close>), the receiver after the call (\<open>self\<close>) and the calls it made (\<open>events\<close>).
\<close>

record 'a call =
  ret :: 'a
  self :: MaxmindGeolocation
  events :: "Event list"

text \<open>A call either returns, or stops in a run-time panic (a nil pointer read).\<close>

datatype 'a outcome = Return 'a | Panic

text \<open>The addresses the dataset was asked for during a run.\<close>

fun lookups :: "Event list \<Rightarrow> string list" where
  "lookups [] = []"
| "lookups (Lookup a # es) = a # lookups es"
| "lookups (_ # es) = lookups es"

subsection \<open>checkAllowed (lines 148 to 169)\<close>

text \<open>
  The two \<open>range\<close> loops. Each returns from the function at the first element equal
  to \<open>item\<close>; the value after the loop is the other boolean.
\<close>

fun deniedLoop :: "string list \<Rightarrow> string \<Rightarrow> bool" where
  "deniedLoop [] item = True"
| "deniedLoop (i # rest) item = (if i = item then False else deniedLoop rest item)"

fun allowedLoop :: "string list \<Rightarrow> string \<Rightarrow> bool" where
  "allowedLoop [] item = False"
| "allowedLoop (i # rest) item = (if i = item then True else allowedLoop rest item)"

definition checkAllowed ::
  "MaxmindGeolocation \<Rightarrow> string \<Rightarrow> string list \<Rightarrow> string list \<Rightarrow> bool call" where
  "checkAllowed m item0 allowedList deniedList =
     (let item = (if item0 = '''' \<or> item0 = ''0'' then ''UNK'' else item0) in
      if length deniedList > 0 then
        \<lparr>ret = deniedLoop deniedList item, self = m, events = []\<rparr>
      else if length allowedList > 0 then
        \<lparr>ret = allowedLoop allowedList item, self = m, events = []\<rparr>
      else
        \<lparr>ret = True, self = m, events = []\<rparr>)"

subsection \<open>The standard library calls of Match\<close>

text \<open>
  \<open>Match\<close> calls \<open>net.SplitHostPort\<close>, \<open>net.ParseIP\<close> and \<open>IP.String\<close> of Go's
  package \<open>net\<close>, which is not part of the repository. \<open>SplitHostPort\<close>
  (\<^verbatim>\<open>net/ipsock.go\<close>) and the scanning loop of \<open>ParseIP\<close> (\<^verbatim>\<open>net/ip.go\<close>) are
  transcribed from the library of Go 1.15, the version \<^verbatim>\<open>go.mod\<close> names. The two
  address parsers \<open>ParseIP\<close> hands over to, and the printing of an address, are left
  open: they are the fields of a \<open>NetLib\<close>, which every function below takes as an
  argument.
\<close>

record NetLib =
  parseIPv4 :: "string \<Rightarrow> IP option"
  parseIPv6 :: "string \<Rightarrow> IP option"
  IP_String :: "IP \<Rightarrow> string"

text \<open>
  \<open>bytealg.IndexByteString s c\<close>: the index of the first byte \<open>c\<close> of \<open>s\<close>, or \<open>-1\<close>.
\<close>

fun IndexByteString :: "string \<Rightarrow> char \<Rightarrow> int" where
  "IndexByteString [] c = - 1"
| "IndexByteString (x # xs) c =
     (if x = c then 0
      else (let r = IndexByteString xs c in if r < 0 then - 1 else r + 1))"

text \<open>
  \<open>last s b\<close> of \<^verbatim>\<open>net/parse.go\<close>: the index of the last byte \<open>b\<close> of \<open>s\<close>, or
  \<open>-1\<close>. The loop counts \<open>i\<close> down from \<open>len(s) - 1\<close>; \<open>last_below s b n\<close> is the
  loop with the indices below \<open>n\<close> still to visit.
\<close>

fun last_below :: "string \<Rightarrow> char \<Rightarrow> nat \<Rightarrow> int" where
  "last_below s b 0 = - 1"
| "last_below s b (Suc i) = (if s ! i = b then int i else last_below s b i)"

definition last_byte :: "string \<Rightarrow> char \<Rightarrow> int" where
  "last_byte s b = last_below s b (length s)"

text \<open>
  \<open>SplitHostPort\<close> returns host, port and error. Every failure leaves through the
  local function \<open>addrErr\<close>, which returns two empty strings beside the error.
\<close>

definition missingPort :: string where
  "missingPort = ''missing port in address''"

definition tooManyColons :: string where
  "tooManyColons = ''too many colons in address''"

definition addrErr :: "string \<Rightarrow> string \<Rightarrow> string \<times> string \<times> error option" where
  "addrErr addr why = ('''', '''', Some (AddrError why addr))"

text \<open>
  The part of \<open>SplitHostPort\<close> after the host is known: no \<open>[\<close> from index \<open>j\<close> on,
  no \<open>]\<close> from index \<open>k\<close> on, and the port is what follows the last colon, at \<open>i\<close>.
\<close>

definition SplitHostPort_rest ::
  "string \<Rightarrow> string \<Rightarrow> nat \<Rightarrow> nat \<Rightarrow> nat \<Rightarrow> string \<times> string \<times> error option" where
  "SplitHostPort_rest hostport host j k i =
     (if 0 \<le> IndexByteString (drop j hostport) CHR ''['' then
        addrErr hostport (''unexpected '' @ [CHR 0x27, CHR ''['', CHR 0x27] @ '' in address'')
      else if 0 \<le> IndexByteString (drop k hostport) CHR '']'' then
        addrErr hostport (''unexpected '' @ [CHR 0x27, CHR '']'', CHR 0x27] @ '' in address'')
      else (host, drop (i + 1) hostport, None))"

definition SplitHostPort :: "string \<Rightarrow> string \<times> string \<times> error option" where
  "SplitHostPort hostport =
     (let i = last_byte hostport CHR '':'' in
      if i < 0 then addrErr hostport missingPort
      else if hostport ! 0 = CHR ''['' then
        (let endb = IndexByteString hostport CHR '']'' in
         if endb < 0 then
           addrErr hostport (''missing '' @ [CHR 0x27, CHR '']'', CHR 0x27] @ '' in address'')
         else if endb + 1 = int (length hostport) then addrErr hostport missingPort
         else if endb + 1 = i then
           SplitHostPort_rest hostport (take (nat endb - 1) (drop 1 hostport))
             1 (nat (endb + 1)) (nat i)
         else if hostport ! nat (endb + 1) = CHR '':'' then addrErr hostport tooManyColons
         else addrErr hostport missingPort)
      else
        (let host = take (nat i) hostport in
         if 0 \<le> IndexByteString host CHR '':'' then addrErr hostport tooManyColons
         else SplitHostPort_rest hostport host 0 0 (nat i)))"

text \<open>
  \<open>ParseIP\<close> looks for the first \<open>.\<close> or \<open>:\<close> of \<open>s\<close> and hands the whole of \<open>s\<close>
  to the parser of that form; a string with neither is no address (\<open>nil\<close>).
  \<open>ParseIP_scan lib s rest\<close> is the loop with the bytes \<open>rest\<close> of \<open>s\<close> still to
  visit.
\<close>

fun ParseIP_scan :: "NetLib \<Rightarrow> string \<Rightarrow> string \<Rightarrow> IP option" where
  "ParseIP_scan lib s [] = None"
| "ParseIP_scan lib s (c # rest) =
     (if c = CHR ''.'' then parseIPv4 lib s
      else if c = CHR '':'' then parseIPv6 lib s
      else ParseIP_scan lib s rest)"

definition ParseIP :: "NetLib \<Rightarrow> string \<Rightarrow> IP option" where
  "ParseIP lib s = ParseIP_scan lib s s"

subsection \<open>Match (lines 171 to 218)\<close>

text \<open>
  Each log call of \<open>Match\<close> stands under \<open>if m.logger != nil\<close>: with no logger
  nothing is called.
\<close>

definition if_logger :: "Logger option \<Rightarrow> (Logger \<Rightarrow> Event) \<Rightarrow> Event list" where
  "if_logger lg call = (case lg of None \<Rightarrow> [] | Some l \<Rightarrow> [call l])"

text \<open>
  The body of \<open>Match\<close>, in the order of the source. The error of \<open>SplitHostPort\<close>
  is logged and not returned on: the host it gave is parsed all the same. The dataset is
  reached through the pointer \<open>m.dbInst\<close>; on a nil pointer the library's query reads
  a field of the nil \<open>*DB\<close>, and the call panics.
\<close>

definition Match :: "NetLib \<Rightarrow> MaxmindGeolocation \<Rightarrow> Request \<Rightarrow> bool outcome call" where
  "Match lib m r =
     (if length (AllowCountries m) < 1 \<and> length (DenyCountries m) < 1 then
        \<lparr>ret = Return True, self = m, events = []\<rparr>
      else
        (case SplitHostPort (RemoteAddr r) of (remoteIp, _, err) \<Rightarrow>
          let ev1 = (case err of
                       None \<Rightarrow> []
                     | Some e \<Rightarrow>
                         if_logger (logger m) (\<lambda>l. Warn l ''cannot split IP address''
                           [zap_String ''address'' (RemoteAddr r), zap_Error e]))
          in
          (case ParseIP lib remoteIp of
             None \<Rightarrow>
               \<lparr>ret = Return False, self = m,
                events = ev1 @ if_logger (logger m) (\<lambda>l. Warn l ''cannot parse IP address''
                           [zap_String ''address'' (RemoteAddr r)])\<rparr>
           | Some addr \<Rightarrow>
               (case dbInst m of
                  None \<Rightarrow> \<lparr>ret = Panic, self = m, events = ev1\<rparr>
                | Some db \<Rightarrow>
                    let ev2 = ev1 @ [Lookup (IP_String lib addr)] in
                    (case Get_country_short db (IP_String lib addr) of
                       Inl e \<Rightarrow>
                         \<lparr>ret = Return False, self = m,
                          events = ev2 @ if_logger (logger m)
                            (\<lambda>l. Warn l ''cannot lookup IP address''
                               [zap_String ''address'' (RemoteAddr r), zap_Error e])\<rparr>
                     | Inr record \<Rightarrow>
                         let ev3 = ev2 @ if_logger (logger m)
                               (\<lambda>l. Debug l ''Detected ip2location data''
                                  [zap_String ''ip'' (RemoteAddr r),
                                   zap_String ''country'' (Country_short record)]);
                             chk = checkAllowed m (Country_short record)
                                     (AllowCountries m) (DenyCountries m)
                         in
                         if \<not> ret chk then
                           \<lparr>ret = Return False, self = self chk,
                            events = ev3 @ events chk @ if_logger (logger (self chk))
                              (\<lambda>l. Debug l ''Country not allowed''
                                 [zap_String ''country'' (Country_short record)])\<rparr>
                         else
                           \<lparr>ret = Return True, self = self chk,
                            events = ev3 @ events chk\<rparr>)))))"

subsection \<open>A configured matcher, for running the model\<close>

text \<open>
  Concrete values on which the functions above can be run. The library stand-in knows
  one address: \<open>1.2.3.4\<close> parses to the 16-byte form \<open>parseIPv4\<close> builds and
  prints back as \<open>1.2.3.4\<close>; nothing else parses. The matcher allows the country
  \<open>US\<close>, logs to a file, and holds a dataset that places \<open>1.2.3.4\<close> in \<open>US\<close> and
  fails to read any other record. \<open>broken_db\<close> is a dataset on which every read fails.
\<close>

definition example_lib :: NetLib where
  "example_lib =
     \<lparr>parseIPv4 = (\<lambda>s. if s = ''1.2.3.4''
                        then Some [0, 0, 0, 0, 0, 0, 0, 0, 0, 0, 0xff, 0xff, 1, 2, 3, 4]
                        else None),
      parseIPv6 = (\<lambda>s. None),
      IP_String = (\<lambda>ip. ''1.2.3.4'')\<rparr>"

definition example_db :: DB where
  "example_db ip =
     (if ip = ''1.2.3.4'' then Inr \<lparr>Country_short = ''US''\<rparr>
      else Inl (DbError ''unexpected EOF''))"

definition broken_db :: DB where
  "broken_db ip = Inl (DbError ''unexpected EOF'')"

definition example_matcher :: MaxmindGeolocation where
  "example_matcher =
     \<lparr>DbPath = ''/etc/caddy/IP2LOCATION-LITE-DB1.BIN'', LogPath = ''/var/log/geo.log'',
      AllowCountries = [''US''], DenyCountries = [],
      dbInst = Some example_db,
      logger = Some (ZapLogger ''/var/log/geo.log'')\<rparr>"

definition request_from :: "string \<Rightarrow> Request" where
  "request_from a = \<lparr>RemoteAddr = a\<rparr>"

section \<open>Properties\<close>

subsection \<open>The loops as membership tests\<close>

lemma deniedLoop_iff: "deniedLoop ds item = (item \<notin> set ds)"
  by (induction ds) auto

lemma allowedLoop_iff: "allowedLoop as item = (item \<in> set as)"
  by (induction as) auto

subsection \<open>Facts about the library calls and the recorded calls\<close>

text \<open>A failed split gives the empty host, and the empty string is no address.\<close>

lemma SplitHostPort_error_host:
  "SplitHostPort hostport = (host, port, Some e) \<Longrightarrow> host = ''''"
  by (auto simp: SplitHostPort_def SplitHostPort_rest_def addrErr_def Let_def
      split: if_splits)

lemma ParseIP_empty: "ParseIP lib '''' = None"
  by (simp add: ParseIP_def)

lemma lookups_append: "lookups (xs @ ys) = lookups xs @ lookups ys"
  by (induction xs rule: lookups.induct) simp_all

lemma lookups_Warn: "lookups (if_logger lg (\<lambda>l. Warn l msg fs)) = []"
  by (simp add: if_logger_def split: option.splits)

lemma lookups_Debug: "lookups (if_logger lg (\<lambda>l. Debug l msg fs)) = []"
  by (simp add: if_logger_def split: option.splits)

lemma if_logger_None: "if_logger None f = []"
  by (simp add: if_logger_def)

text \<open>With a policy configured, a host that is no address ends the run before the dataset.\<close>

lemma Match_no_address:
  assumes "AllowCountries m \<noteq> [] \<or> DenyCountries m \<noteq> []"
      and "SplitHostPort (RemoteAddr r) = (host, port, err)"
      and "ParseIP lib host = None"
  shows "ret (Match lib m r) = Return False \<and> lookups (events (Match lib m r)) = []"
  using assms
  by (auto simp: Match_def Let_def lookups_append lookups_Warn split: option.splits)

text \<open>The runs used below, computed.\<close>

lemma split_bare_address:
  "SplitHostPort ''1.2.3.4''
     = ('''', '''', Some (AddrError ''missing port in address'' ''1.2.3.4''))"
  by code_simp

lemma split_address_port: "SplitHostPort ''1.2.3.4:80'' = (''1.2.3.4'', ''80'', None)"
  by code_simp

lemma split_name_port: "SplitHostPort ''example.com:80'' = (''example.com'', ''80'', None)"
  by code_simp

lemma parse_known_address:
  "ParseIP example_lib ''1.2.3.4''
     = Some [0, 0, 0, 0, 0, 0, 0, 0, 0, 0, 0xff, 0xff, 1, 2, 3, 4]"
  by (simp add: ParseIP_def example_lib_def)

lemma print_known_address: "IP_String example_lib ip = ''1.2.3.4''"
  by (simp add: example_lib_def)

lemma parse_name: "ParseIP example_lib ''example.com'' = None"
  by (simp add: ParseIP_def example_lib_def)

subsection \<open>checkAllowed\<close>

text \<open>
  C2: when the deny list is not empty, \<open>checkAllowed\<close> returns true exactly when the
  code, with the empty string and \<open>"0"\<close> replaced by \<open>"UNK"\<close>, is not in the deny
  list; the allow list is not consulted: any other allow list gives the same result,
  also one that holds the code.
\<close>

theorem C2_deny_list_decides:
  assumes "deniedList \<noteq> []"
  shows "ret (checkAllowed m c allowedList deniedList)
           = ((if c = '''' \<or> c = ''0'' then ''UNK'' else c) \<notin> set deniedList)
         \<and> ret (checkAllowed m c allowedList' deniedList)
           = ret (checkAllowed m c allowedList deniedList)"
  using assms by (simp add: checkAllowed_def deniedLoop_iff)

theorem C2_deny_list_decides_witness:
  "ret (checkAllowed example_matcher ''CN'' [''CN'', ''US''] [''RU'', ''CN'']) = False
   \<and> ret (checkAllowed example_matcher ''CN'' [] [''RU'', ''CN''])
     = ret (checkAllowed example_matcher ''CN'' [''CN'', ''US''] [''RU'', ''CN''])"
proof -
  have h: "[''RU'', ''CN''] \<noteq> ([] :: string list)" by simp
  show ?thesis
    using C2_deny_list_decides [OF h, of example_matcher "''CN''" "[''CN'', ''US'']" "[]"]
    by simp
qed

text \<open>
  C3: when the deny list is empty and the allow list is not, \<open>checkAllowed\<close> returns
  true exactly when the code, with the empty string and \<open>"0"\<close> replaced by \<open>"UNK"\<close>,
  is an element of the allow list: equal, as a string, to one of its entries.
\<close>

theorem C3_allow_list_decides:
  assumes "deniedList = []" and "allowedList \<noteq> []"
  shows "ret (checkAllowed m c allowedList deniedList)
           = ((if c = '''' \<or> c = ''0'' then ''UNK'' else c) \<in> set allowedList)"
  using assms by (simp add: checkAllowed_def allowedLoop_iff)

theorem C3_allow_list_decides_witness:
  "ret (checkAllowed example_matcher ''us'' [''US'', ''USA''] []) = False"
proof -
  have d: "([] :: string list) = []" by simp
  have a: "[''US'', ''USA''] \<noteq> ([] :: string list)" by simp
  show ?thesis
    using C3_allow_list_decides [OF d a, of example_matcher "''us''"] by simp
qed

text \<open>
  C4: for a fixed policy, \<open>checkAllowed\<close> gives the same boolean on the empty string,
  on \<open>"0"\<close> and on \<open>"UNK"\<close>: the first two are replaced by \<open>"UNK"\<close> before any
  list is read.
\<close>

theorem C4_unknown_codes_agree:
  "ret (checkAllowed m '''' allowedList deniedList)
     = ret (checkAllowed m ''UNK'' allowedList deniedList)
   \<and> ret (checkAllowed m ''0'' allowedList deniedList)
     = ret (checkAllowed m ''UNK'' allowedList deniedList)"
  by (simp add: checkAllowed_def)

text \<open>
  C7: two policies whose allow lists have the same elements and whose deny lists have
  the same elements (they differ in order and in repetitions only) get the same result
  from \<open>checkAllowed\<close>, for every code.
\<close>

theorem C7_order_and_duplicates_irrelevant:
  assumes "set allowedList = set allowedList'" and "set deniedList = set deniedList'"
  shows "ret (checkAllowed m c allowedList deniedList)
           = ret (checkAllowed m c allowedList' deniedList')"
proof -
  have a: "(allowedList = []) = (allowedList' = [])"
    using assms(1) by (metis set_empty)
  have d: "(deniedList = []) = (deniedList' = [])"
    using assms(2) by (metis set_empty)
  show ?thesis
    using a d assms by (simp add: checkAllowed_def deniedLoop_iff allowedLoop_iff)
qed

theorem C7_order_and_duplicates_irrelevant_witness:
  "ret (checkAllowed example_matcher ''CA'' [''US'', ''CA''] [''CN'', ''RU'', ''CN''])
     = ret (checkAllowed example_matcher ''CA'' [''CA'', ''US'', ''CA''] [''RU'', ''CN''])"
proof -
  have a: "set [''US'', ''CA''] = set [''CA'', ''US'', ''CA'']" by auto
  have d: "set [''CN'', ''RU'', ''CN''] = set [''RU'', ''CN'']" by auto
  show ?thesis
    by (rule C7_order_and_duplicates_irrelevant [OF a d])
qed

subsection \<open>Match\<close>

text \<open>
  C1: when the allow list and the deny list are both empty, \<open>Match\<close> returns true for
  every request, whatever its address string, and makes no call at all: the dataset is
  not asked (and may even be missing).
\<close>

theorem C1_unconfigured_accepts:
  assumes "AllowCountries m = []" and "DenyCountries m = []"
  shows "ret (Match lib m r) = Return True \<and> events (Match lib m r) = []"
  using assms by (simp add: Match_def)

theorem C1_unconfigured_accepts_witness:
  "ret (Match example_lib (example_matcher\<lparr>AllowCountries := [], dbInst := None\<rparr>)
         (request_from ''not-an-address'')) = Return True
   \<and> events (Match example_lib (example_matcher\<lparr>AllowCountries := [], dbInst := None\<rparr>)
         (request_from ''not-an-address'')) = []"
proof -
  have a: "AllowCountries (example_matcher\<lparr>AllowCountries := [], dbInst := None\<rparr>) = []"
    by simp
  have d: "DenyCountries (example_matcher\<lparr>AllowCountries := [], dbInst := None\<rparr>) = []"
    by (simp add: example_matcher_def)
  show ?thesis
    by (rule C1_unconfigured_accepts [OF a d])
qed

text \<open>
  C5: with at least one list not empty, when the host that \<open>SplitHostPort\<close> extracted
  from the address string does not parse as an IP address, \<open>Match\<close> returns false
  and the dataset is not asked.
\<close>

theorem C5_unparsed_host_denied:
  assumes "AllowCountries m \<noteq> [] \<or> DenyCountries m \<noteq> []"
      and "SplitHostPort (RemoteAddr r) = (host, port, err)"
      and "ParseIP lib host = None"
  shows "ret (Match lib m r) = Return False \<and> lookups (events (Match lib m r)) = []"
  using assms by (rule Match_no_address)

theorem C5_unparsed_host_denied_witness:
  "AllowCountries example_matcher = [''US'']
   \<and> SplitHostPort ''example.com:80'' = (''example.com'', ''80'', None)
   \<and> ParseIP example_lib ''example.com'' = None
   \<and> ret (Match example_lib example_matcher (request_from ''example.com:80''))
       = Return False
   \<and> lookups (events (Match example_lib example_matcher (request_from ''example.com:80'')))
       = []"
proof -
  have p: "AllowCountries example_matcher \<noteq> [] \<or> DenyCountries example_matcher \<noteq> []"
    by (simp add: example_matcher_def)
  have s: "SplitHostPort (RemoteAddr (request_from ''example.com:80''))
             = (''example.com'', ''80'', None)"
    by (simp add: request_from_def split_name_port)
  show ?thesis
    using C5_unparsed_host_denied [OF p s parse_name]
    by (simp add: example_matcher_def split_name_port parse_name)
qed

text \<open>
  C6: with at least one list not empty and an address that parsed, when the dataset
  lookup returns an error, \<open>Match\<close> returns false: it returns a boolean, the error
  goes no further than the log. The lists are not consulted: any other configured
  policy gives the same result and the same calls.
\<close>

theorem C6_lookup_error_denied:
  assumes "AllowCountries m \<noteq> [] \<or> DenyCountries m \<noteq> []"
      and "allowedList \<noteq> [] \<or> deniedList \<noteq> []"
      and "SplitHostPort (RemoteAddr r) = (host, port, err)"
      and "ParseIP lib host = Some addr"
      and "dbInst m = Some db"
      and "Get_country_short db (IP_String lib addr) = Inl e"
  shows "ret (Match lib m r) = Return False
         \<and> ret (Match lib (m\<lparr>AllowCountries := allowedList, DenyCountries := deniedList\<rparr>) r)
             = ret (Match lib m r)
         \<and> events (Match lib (m\<lparr>AllowCountries := allowedList, DenyCountries := deniedList\<rparr>) r)
             = events (Match lib m r)"
  using assms by (auto simp: Match_def Let_def split: option.splits)

theorem C6_lookup_error_denied_witness:
  "ret (Match example_lib (example_matcher\<lparr>dbInst := Some broken_db\<rparr>)
         (request_from ''1.2.3.4:80'')) = Return False
   \<and> ret (Match example_lib
           (example_matcher\<lparr>dbInst := Some broken_db,
              AllowCountries := [], DenyCountries := [''CN'']\<rparr>)
           (request_from ''1.2.3.4:80'')) = Return False
   \<and> lookups (events (Match example_lib (example_matcher\<lparr>dbInst := Some broken_db\<rparr>)
         (request_from ''1.2.3.4:80''))) = [''1.2.3.4'']"
proof -
  let ?m = "example_matcher\<lparr>dbInst := Some broken_db\<rparr>"
  let ?ip = "[0, 0, 0, 0, 0, 0, 0, 0, 0, 0, 0xff, 0xff, 1, 2, 3, 4] :: IP"
  have p: "AllowCountries ?m \<noteq> [] \<or> DenyCountries ?m \<noteq> []"
    by (simp add: example_matcher_def)
  have q: "([] :: string list) \<noteq> [] \<or> [''CN''] \<noteq> ([] :: string list)"
    by simp
  have s: "SplitHostPort (RemoteAddr (request_from ''1.2.3.4:80''))
             = (''1.2.3.4'', ''80'', None)"
    by (simp add: request_from_def split_address_port)
  have d: "dbInst ?m = Some broken_db"
    by simp
  have g: "Get_country_short broken_db (IP_String example_lib ?ip)
             = Inl (DbError ''unexpected EOF'')"
    by (simp add: Get_country_short_def broken_db_def)
  have l: "lookups (events (Match example_lib ?m (request_from ''1.2.3.4:80'')))
             = [''1.2.3.4'']"
    by (simp add: Match_def example_matcher_def request_from_def split_address_port
          parse_known_address print_known_address Get_country_short_def broken_db_def
          if_logger_def)
  show ?thesis
    using C6_lookup_error_denied [OF p q s parse_known_address d g] l
    by simp
qed

text \<open>
  C8: the logger has no part in the decision. For every matcher, request, library and
  dataset, \<open>Match\<close> returns the same with any logger as with none; with no logger it
  makes the same dataset calls and no log call; and no step of it fails for want of a
  logger: with a dataset handle in place it never panics.
\<close>

theorem C8_logger_no_influence:
  "ret (Match lib (m\<lparr>logger := lg\<rparr>) r) = ret (Match lib (m\<lparr>logger := None\<rparr>) r)
   \<and> events (Match lib (m\<lparr>logger := None\<rparr>) r)
       = map Lookup (lookups (events (Match lib (m\<lparr>logger := lg\<rparr>) r)))
   \<and> (dbInst m \<noteq> None \<longrightarrow> ret (Match lib (m\<lparr>logger := None\<rparr>) r) \<noteq> Panic)"
  by (auto simp: Match_def Let_def checkAllowed_def if_logger_None lookups_append
        lookups_Warn lookups_Debug
      split: prod.splits option.splits sum.splits)

theorem C8_logger_no_influence_witness:
  "dbInst example_matcher = Some example_db
   \<and> ret (Match example_lib
           (example_matcher\<lparr>logger := Some (ZapLogger ''/var/log/geo.log'')\<rparr>)
           (request_from ''1.2.3.4:80''))
       = ret (Match example_lib (example_matcher\<lparr>logger := None\<rparr>)
           (request_from ''1.2.3.4:80''))
   \<and> ret (Match example_lib (example_matcher\<lparr>logger := None\<rparr>)
           (request_from ''1.2.3.4:80'')) \<noteq> Panic"
  using C8_logger_no_influence [where lib = example_lib and m = example_matcher
      and lg = "Some (ZapLogger ''/var/log/geo.log'')" and r = "request_from ''1.2.3.4:80''"]
  by (simp add: example_matcher_def)

text \<open>
  C9: \<open>Match\<close> and \<open>checkAllowed\<close> leave the matcher as it was: the receiver after
  the call is the receiver before it, in every field (allow list, deny list, dataset
  handle, logger and the two paths).
\<close>

theorem C9_matcher_unchanged:
  "self (Match lib m r) = m \<and> self (checkAllowed m c allowedList deniedList) = m"
  by (simp add: Match_def checkAllowed_def Let_def
      split: prod.splits option.splits sum.splits)

text \<open>
  C10: with at least one list not empty, when \<open>SplitHostPort\<close> fails on the address
  string (as on a bare IP address with no port), \<open>Match\<close> returns false: the host of
  a failed split is the empty string, the empty string does not parse as an address,
  and the dataset is never asked.
\<close>

theorem C10_failed_split_denied:
  assumes "AllowCountries m \<noteq> [] \<or> DenyCountries m \<noteq> []"
      and "SplitHostPort (RemoteAddr r) = (host, port, Some e)"
  shows "host = '''' \<and> ParseIP lib host = None
         \<and> ret (Match lib m r) = Return False \<and> lookups (events (Match lib m r)) = []"
proof -
  have h: "host = ''''"
    using assms(2) by (rule SplitHostPort_error_host)
  have p: "ParseIP lib host = None"
    using h by (simp add: ParseIP_empty)
  show ?thesis
    using h p Match_no_address [OF assms(1) assms(2) p] by simp
qed

theorem C10_failed_split_denied_witness:
  "SplitHostPort ''1.2.3.4''
     = ('''', '''', Some (AddrError ''missing port in address'' ''1.2.3.4''))
   \<and> ParseIP example_lib ''1.2.3.4'' \<noteq> None
   \<and> ret (Match example_lib example_matcher (request_from ''1.2.3.4'')) = Return False
   \<and> lookups (events (Match example_lib example_matcher (request_from ''1.2.3.4''))) = []"
proof -
  have p: "AllowCountries example_matcher \<noteq> [] \<or> DenyCountries example_matcher \<noteq> []"
    by (simp add: example_matcher_def)
  have s: "SplitHostPort (RemoteAddr (request_from ''1.2.3.4''))
             = ('''', '''', Some (AddrError ''missing port in address'' ''1.2.3.4''))"
    by (simp add: request_from_def split_bare_address)
  show ?thesis
    using C10_failed_split_denied [OF p s, of example_lib]
    by (simp add: split_bare_address parse_known_address)
qed

end
